theory Spec2Isabelle
  imports Complex_Main "HOL-Library.AList" "HOL-Library.Word"
begin

unbundle bit_operations_syntax

section \<open>Strings as Python uses them\<close>

text \<open>
  A Python \<open>str\<close> is modelled as a \<open>string\<close> (a list of 8-bit characters, that is the
  UTF-8 bytes of the text), and \<open>bytes\<close> as a list of characters as well.
\<close>

type_synonym bytes = "char list"

text \<open>\<open>s.startswith(p)\<close>: the first \<open>len(p)\<close> characters of \<open>s\<close> are \<open>p\<close>.\<close>

definition startswith :: "string \<Rightarrow> string \<Rightarrow> bool" where
  "startswith s p = (take (length p) s = p)"

text \<open>\<open>p in s\<close> on strings: \<open>p\<close> occurs in \<open>s\<close> as a contiguous run.\<close>

fun str_contains :: "string \<Rightarrow> string \<Rightarrow> bool" where
  "str_contains p [] = (p = [])"
| "str_contains p (c # cs) = (startswith (c # cs) p \<or> str_contains p cs)"


text \<open>\<open>sep.join(lines)\<close>.\<close>

fun join :: "string \<Rightarrow> string list \<Rightarrow> string" where
  "join sep [] = []"
| "join sep [l] = l"
| "join sep (l # l' # ls) = l @ sep @ join sep (l' # ls)"

text \<open>The decimal digits of a natural number, as \<open>str(n)\<close> prints them.\<close>

definition digit_char :: "nat \<Rightarrow> char" where
  "digit_char d = ''0123456789'' ! d"

fun str_nat :: "nat \<Rightarrow> string" where
  "str_nat n = (if n < 10 then [digit_char n] else str_nat (n div 10) @ [digit_char (n mod 10)])"

declare str_nat.simps [simp del]

text \<open>\<open>xs[1:m]\<close> for a Python integer \<open>m\<close>: a negative bound counts from the end.\<close>

definition slice_from_1 :: "int \<Rightarrow> 'a list \<Rightarrow> 'a list" where
  "slice_from_1 m xs =
     (let n = int (length xs);
          stop = (if m < 0 then max 0 (n + m) else min m n)
      in take (nat stop - 1) (drop 1 xs))"

section \<open>Data model (app/models/messages.py)\<close>

record AudioAttachment =
  filename :: string
  content_type :: string
  size_bytes :: int
  data :: bytes

text \<open>
  \<open>confidence\<close> is a Python float; it is modelled as an exact rational. The validator of
  the class rejects a value outside \<open>[0, 1]\<close> at construction.
\<close>

record TranscriptionResult =
  transcript :: string
  confidence :: rat
  language_code :: string
  alternatives :: "string list"

definition validate_confidence :: "rat \<Rightarrow> bool" where
  "validate_confidence v = (0 \<le> v \<and> v \<le> 1)"

record OtherAttachment =
  oa_filename :: string
  oa_content_type :: string
  oa_size_bytes :: int
  oa_data :: bytes

record VoicemailMessage =
  correlation_id :: string
  message_id :: string
  sender :: string
  recipients :: "string list"
  subject :: string
  body_text :: "string option"
  body_html :: "string option"
  headers :: "(string \<times> string) list"
  audio_attachments :: "AudioAttachment list"
  other_attachments :: "OtherAttachment list"
  msg_transcription_results :: "TranscriptionResult list"

definition has_audio_attachments :: "VoicemailMessage \<Rightarrow> bool" where
  "has_audio_attachments m = (0 < length (audio_attachments m))"

record ProcessingResult =
  result_correlation_id :: string
  success :: bool
  transcriptions_count :: nat
  error_message :: "string option"
  processing_time_ms :: int
  forwarded :: bool
  files_cleaned :: bool

section \<open>Transcription fan-out (app/services/transcription.py)\<close>

record GoogleConfig =
  cfg_language_code :: string
  cfg_model :: string
  max_alternatives :: int

datatype AudioEncoding = LINEAR16 | FLAC | OGG_OPUS | AMR | AMR_WB

definition lower_char :: "char \<Rightarrow> char" where
  "lower_char c =
     (case map_of (zip ''ABCDEFGHIJKLMNOPQRSTUVWXYZ'' ''abcdefghijklmnopqrstuvwxyz'') c of
        Some l \<Rightarrow> l
      | None \<Rightarrow> c)"

text \<open>\<open>str.lower()\<close> on the ASCII letters; other bytes are left as they are.\<close>

definition lower :: "string \<Rightarrow> string" where
  "lower s = map lower_char s"

definition get_audio_encoding :: "string \<Rightarrow> AudioEncoding" where
  "get_audio_encoding ct =
     (let content_type_lower = lower ct in
      if str_contains ''wav'' content_type_lower then LINEAR16
      else if str_contains ''mp3'' content_type_lower \<or> str_contains ''mpeg'' content_type_lower
        then LINEAR16
      else if str_contains ''flac'' content_type_lower then FLAC
      else if str_contains ''ogg'' content_type_lower then OGG_OPUS
      else if str_contains ''amr'' content_type_lower then AMR
      else if str_contains ''amr-wb'' content_type_lower then AMR_WB
      else LINEAR16)"

record RecognitionConfig =
  encoding :: AudioEncoding
  rc_language_code :: string
  rc_model :: string
  rc_max_alternatives :: int

definition create_recognition_config :: "GoogleConfig \<Rightarrow> AudioAttachment \<Rightarrow> RecognitionConfig" where
  "create_recognition_config cfg audio_attachment =
     \<lparr> encoding = get_audio_encoding (content_type audio_attachment),
       rc_language_code = cfg_language_code cfg,
       rc_model = cfg_model cfg,
       rc_max_alternatives = max_alternatives cfg \<rparr>"

text \<open>
  The remote speech API is outside the repository: it is a parameter \<open>recognize\<close> that
  either raises or returns a response, a list of results, each a ranked list of
  alternatives.
\<close>

record SpeechAlternative =
  alt_transcript :: string
  alt_confidence :: rat

type_synonym SpeechResult = "SpeechAlternative list"
type_synonym RecognizeResponse = "SpeechResult list"

datatype api_error = InvalidArgument | DeadlineExceeded | ResourceExhausted | OtherApiError

type_synonym speech_client = "RecognitionConfig \<Rightarrow> bytes \<Rightarrow> api_error + RecognizeResponse"

definition prepare_audio_data :: "AudioAttachment \<Rightarrow> bytes option" where
  "prepare_audio_data audio_attachment = Some (data audio_attachment)"

text \<open>Every exception of the call is logged and turned into \<open>None\<close>.\<close>

definition perform_transcription ::
  "speech_client \<Rightarrow> bytes \<Rightarrow> RecognitionConfig \<Rightarrow> RecognizeResponse option" where
  "perform_transcription recognize audio_data config =
     (case recognize config audio_data of
        Inl InvalidArgument \<Rightarrow> None
      | Inl DeadlineExceeded \<Rightarrow> None
      | Inl ResourceExhausted \<Rightarrow> None
      | Inl OtherApiError \<Rightarrow> None
      | Inr response \<Rightarrow> Some response)"

text \<open>
  \<open>transcribe_audio\<close>: \<open>None\<close> for empty audio data, for a failed call, for a response
  without results, for a first result without alternatives (the \<open>IndexError\<close> is caught
  by the function's own handler) and for a confidence the result class rejects (the
  \<open>ValueError\<close> is caught likewise).
\<close>

definition transcribe_audio ::
  "GoogleConfig \<Rightarrow> speech_client \<Rightarrow> AudioAttachment \<Rightarrow> TranscriptionResult option" where
  "transcribe_audio cfg recognize audio_attachment =
     (case prepare_audio_data audio_attachment of
        None \<Rightarrow> None
      | Some audio_data \<Rightarrow>
          if audio_data = [] then None
          else
            (let recognition_config = create_recognition_config cfg audio_attachment in
             case perform_transcription recognize audio_data recognition_config of
               None \<Rightarrow> None
             | Some [] \<Rightarrow> None
             | Some (result # _) \<Rightarrow>
                 (case result of
                    [] \<Rightarrow> None
                  | alternative # _ \<Rightarrow>
                      if validate_confidence (alt_confidence alternative)
                      then Some \<lparr> transcript = alt_transcript alternative,
                                  confidence = alt_confidence alternative,
                                  language_code = cfg_language_code cfg,
                                  alternatives =
                                    map alt_transcript
                                      (slice_from_1 (max_alternatives cfg) result) \<rparr>
                      else None)))"

text \<open>
  What \<open>asyncio.gather(*tasks, return_exceptions=True)\<close> hands back for one task: the
  exception it raised, or the value it returned. The list of these is in the order of
  the tasks, whatever the order in which they complete.
\<close>

datatype 'a gathered = Raised string | Returned 'a

definition gather :: "('a \<Rightarrow> 'b gathered) \<Rightarrow> 'a list \<Rightarrow> 'b gathered list" where
  "gather task xs = map task xs"

text \<open>
  The loop over the gathered results: the state is the list built so far and the count
  of successes.
\<close>

fun batch_loop ::
  "TranscriptionResult option gathered list \<Rightarrow> TranscriptionResult option list \<times> nat
     \<Rightarrow> TranscriptionResult option list \<times> nat" where
  "batch_loop [] st = st"
| "batch_loop (Raised e # rest) (transcription_results, successful_count) =
     batch_loop rest (transcription_results @ [None], successful_count)"
| "batch_loop (Returned (Some r) # rest) (transcription_results, successful_count) =
     batch_loop rest (transcription_results @ [Some r], successful_count + 1)"
| "batch_loop (Returned None # rest) (transcription_results, successful_count) =
     batch_loop rest (transcription_results @ [None], successful_count)"

text \<open>
  \<open>transcribe_multiple\<close> over any coroutine for one attachment, which may return a result,
  return \<open>None\<close> or raise.
\<close>

definition transcribe_multiple_with ::
  "(AudioAttachment \<Rightarrow> TranscriptionResult option gathered) \<Rightarrow> AudioAttachment list
     \<Rightarrow> TranscriptionResult option list" where
  "transcribe_multiple_with coro attachments =
     (if attachments = [] then []
      else fst (batch_loop (gather coro attachments) ([], 0)))"

definition transcribe_multiple ::
  "GoogleConfig \<Rightarrow> speech_client \<Rightarrow> AudioAttachment list \<Rightarrow> TranscriptionResult option list" where
  "transcribe_multiple cfg recognize attachments =
     transcribe_multiple_with (\<lambda>a. Returned (transcribe_audio cfg recognize a)) attachments"


section \<open>Message enhancer (app/services/email_processor.py)\<close>

text \<open>
  \<open>f"{v:.2%}"\<close>: the value times one hundred, rounded to two decimals (ties to even, as
  the float formatter rounds), then a percent sign. The confidence is an exact rational
  here, so the rounding is that of the exact value.
\<close>

definition round_half_even :: "rat \<Rightarrow> int" where
  "round_half_even x =
     (let f = \<lfloor>x\<rfloor>; d = x - of_int f
      in if d < 1 / 2 then f else if 1 / 2 < d then f + 1 else if even f then f else f + 1)"

definition format_percent :: "rat \<Rightarrow> string" where
  "format_percent v =
     (let hundredths = nat (round_half_even (\<bar>v * 100\<bar> * 100))
      in (if v < 0 then ''-'' else [])
         @ str_nat (hundredths div 100) @ ''.''
         @ [digit_char (hundredths mod 100 div 10), digit_char (hundredths mod 10)] @ ''%'')"

text \<open>The results that are not \<open>None\<close>: \<open>[r for r in results if r is not None]\<close>.\<close>

definition successful :: "TranscriptionResult option list \<Rightarrow> TranscriptionResult list" where
  "successful transcription_results = map the (filter (\<lambda>r. r \<noteq> None) transcription_results)"

definition enhance_subject :: "string \<Rightarrow> TranscriptionResult option list \<Rightarrow> string" where
  "enhance_subject original_subject transcription_results =
     (let successful_transcriptions = successful transcription_results in
      if successful_transcriptions \<noteq> [] then
        (if \<not> startswith original_subject ''[Transcribed]''
         then ''[Transcribed] '' @ original_subject
         else original_subject)
      else
        (if \<not> startswith original_subject ''[Audio]''
         then ''[Audio] '' @ original_subject
         else original_subject))"

text \<open>The lines for the alternatives of one result, numbered from \<open>j + 1\<close>.\<close>

fun alternative_lines :: "nat \<Rightarrow> string list \<Rightarrow> string list" where
  "alternative_lines j [] = []"
| "alternative_lines j (alt # alts) =
     (''  '' @ str_nat (j + 1) @ ''. '' @ alt) # alternative_lines (j + 1) alts"

definition result_lines :: "bool \<Rightarrow> nat \<Rightarrow> TranscriptionResult \<Rightarrow> string list" where
  "result_lines several i result =
     (if several then [''Audio File '' @ str_nat (i + 1) @ '':''] else [])
     @ [''Transcript: '' @ transcript result,
        ''Confidence: '' @ format_percent (confidence result)]
     @ (if alternatives result \<noteq> []
        then ''Alternative transcriptions:'' # alternative_lines 0 (take 3 (alternatives result))
        else [])
     @ [[]]"

text \<open>The loop \<open>for i, result in enumerate(successful_transcriptions)\<close>.\<close>

fun transcription_lines :: "bool \<Rightarrow> nat \<Rightarrow> TranscriptionResult list \<Rightarrow> string list" where
  "transcription_lines several i [] = []"
| "transcription_lines several i (result # rest) =
     result_lines several i result @ transcription_lines several (i + 1) rest"

definition body_lines :: "VoicemailMessage \<Rightarrow> TranscriptionResult option list \<Rightarrow> string list" where
  "body_lines voicemail_msg transcription_results =
     (let successful_transcriptions = successful transcription_results in
      (if successful_transcriptions \<noteq> [] then
         [''=== VOICEMAIL TRANSCRIPTION ==='', []]
         @ transcription_lines (1 < length successful_transcriptions) 0 successful_transcriptions
         @ [''=== END TRANSCRIPTION ==='', []]
       else if has_audio_attachments voicemail_msg then
         [''=== VOICEMAIL AUDIO ATTACHED ==='',
          ''(Transcription was not available for this message)'', []]
       else [])
      @ (case body_text voicemail_msg of
           None \<Rightarrow> []
         | Some body \<Rightarrow>
             if body \<noteq> [] then [''=== ORIGINAL MESSAGE ==='', [], body] else []))"

definition create_plain_text_body ::
  "VoicemailMessage \<Rightarrow> TranscriptionResult option list \<Rightarrow> string" where
  "create_plain_text_body voicemail_msg transcription_results =
     join ''\<newline>'' (body_lines voicemail_msg transcription_results)"

text \<open>
  The enhanced message as far as it is modelled: the routing headers, the subject, the
  plain-text part and the attachments carried through. The HTML part and the headers
  copied from the original are left out.
\<close>

record EnhancedEmail =
  e_from :: string
  e_to :: string
  e_subject :: string
  e_plain_text :: string
  e_audio :: "AudioAttachment list"
  e_other :: "OtherAttachment list"

definition create_enhanced_email ::
  "VoicemailMessage \<Rightarrow> TranscriptionResult option list \<Rightarrow> EnhancedEmail option" where
  "create_enhanced_email voicemail_msg transcription_results =
     Some \<lparr> e_from = sender voicemail_msg,
            e_to = join '', '' (recipients voicemail_msg),
            e_subject = enhance_subject (subject voicemail_msg) transcription_results,
            e_plain_text = create_plain_text_body voicemail_msg transcription_results,
            e_audio = audio_attachments voicemail_msg,
            e_other = other_attachments voicemail_msg \<rparr>"

text \<open>
  Sending is outside the repository: \<open>send_email\<close> is the SMTP hand-over, \<open>True\<close> when
  the message was sent; every exception of it is caught and gives \<open>False\<close>.
\<close>

type_synonym smtp_send = "EnhancedEmail \<Rightarrow> string list \<Rightarrow> bool"

definition enhance_and_forward ::
  "smtp_send \<Rightarrow> VoicemailMessage \<Rightarrow> TranscriptionResult option list \<Rightarrow> bool" where
  "enhance_and_forward send_email voicemail_msg transcription_results =
     (case create_enhanced_email voicemail_msg transcription_results of
        None \<Rightarrow> False
      | Some enhanced_email \<Rightarrow> send_email enhanced_email (recipients voicemail_msg))"

section \<open>Artifact store (app/services/file_manager.py)\<close>

subsection \<open>File names\<close>

text \<open>
  \<open>Path(p).suffix\<close> of pathlib, POSIX flavour. The name of a path is its last component
  that is neither empty nor a single dot; the suffix is the part of the name from its
  last dot on, unless that dot is the first or the last character.
\<close>

fun split_on :: "char \<Rightarrow> string \<Rightarrow> string list" where
  "split_on sep [] = [[]]"
| "split_on sep (c # cs) =
     (if c = sep then [] # split_on sep cs
      else case split_on sep cs of [] \<Rightarrow> [[c]] | p # ps \<Rightarrow> (c # p) # ps)"

definition path_name :: "string \<Rightarrow> string" where
  "path_name p =
     (case filter (\<lambda>x. x \<noteq> [] \<and> x \<noteq> ''.'') (split_on CHR ''/'' p) of
        [] \<Rightarrow> []
      | x # xs \<Rightarrow> last (x # xs))"

definition path_suffix :: "string \<Rightarrow> string" where
  "path_suffix p =
     (let name = path_name p;
          ext = takeWhile (\<lambda>c. c \<noteq> CHR ''.'') (rev name)
      in if CHR ''.'' \<notin> set name then []
         else let i = length name - length ext - 1
              in if 0 < i \<and> i < length name - 1 then drop i name else [])"

text \<open>\<open>f"{index:02d}"\<close>: the decimal digits, padded with zeros to a width of two.\<close>

definition format_02d :: "nat \<Rightarrow> string" where
  "format_02d n = (let s = str_nat n in replicate (2 - length s) CHR ''0'' @ s)"

text \<open>
  \<open>hashlib.md5(s.encode()).hexdigest()\<close>, after RFC 1321: the message is padded to a
  multiple of 64 bytes, each block of sixteen little-endian 32-bit words is mixed into
  the state in 64 rounds, and the state is printed as 32 lowercase hexadecimal digits.
\<close>

definition md5_s :: "nat list" where
  "md5_s = [7, 12, 17, 22, 7, 12, 17, 22, 7, 12, 17, 22, 7, 12, 17, 22,
            5, 9, 14, 20, 5, 9, 14, 20, 5, 9, 14, 20, 5, 9, 14, 20,
            4, 11, 16, 23, 4, 11, 16, 23, 4, 11, 16, 23, 4, 11, 16, 23,
            6, 10, 15, 21, 6, 10, 15, 21, 6, 10, 15, 21, 6, 10, 15, 21]"

definition md5_K :: "32 word list" where
  "md5_K = [0xd76aa478, 0xe8c7b756, 0x242070db, 0xc1bdceee,
            0xf57c0faf, 0x4787c62a, 0xa8304613, 0xfd469501,
            0x698098d8, 0x8b44f7af, 0xffff5bb1, 0x895cd7be,
            0x6b901122, 0xfd987193, 0xa679438e, 0x49b40821,
            0xf61e2562, 0xc040b340, 0x265e5a51, 0xe9b6c7aa,
            0xd62f105d, 0x02441453, 0xd8a1e681, 0xe7d3fbc8,
            0x21e1cde6, 0xc33707d6, 0xf4d50d87, 0x455a14ed,
            0xa9e3e905, 0xfcefa3f8, 0x676f02d9, 0x8d2a4c8a,
            0xfffa3942, 0x8771f681, 0x6d9d6122, 0xfde5380c,
            0xa4beea44, 0x4bdecfa9, 0xf6bb4b60, 0xbebfbc70,
            0x289b7ec6, 0xeaa127fa, 0xd4ef3085, 0x04881d05,
            0xd9d4d039, 0xe6db99e5, 0x1fa27cf8, 0xc4ac5665,
            0xf4292244, 0x432aff97, 0xab9423a7, 0xfc93a039,
            0x655b59c3, 0x8f0ccc92, 0xffeff47d, 0x85845dd1,
            0x6fa87e4f, 0xfe2ce6e0, 0xa3014314, 0x4e0811a1,
            0xf7537e82, 0xbd3af235, 0x2ad7d2bb, 0xeb86d391]"

definition leftrotate :: "32 word \<Rightarrow> nat \<Rightarrow> 32 word" where
  "leftrotate x c = push_bit c x OR drop_bit (32 - c) x"

definition md5_pad :: "nat list \<Rightarrow> nat list" where
  "md5_pad m =
     m @ [128] @ replicate ((119 - length m mod 64) mod 64) 0
       @ map (\<lambda>i. (8 * length m) div 256 ^ i mod 256) [0..<8]"

definition le32 :: "nat list \<Rightarrow> 32 word" where
  "le32 bs = of_nat (bs ! 0 + 256 * bs ! 1 + 65536 * bs ! 2 + 16777216 * bs ! 3)"

definition block_words :: "nat list \<Rightarrow> 32 word list" where
  "block_words block = map (\<lambda>j. le32 (take 4 (drop (4 * j) block))) [0..<16]"

type_synonym md5_state = "32 word \<times> 32 word \<times> 32 word \<times> 32 word"

definition md5_step :: "32 word list \<Rightarrow> nat \<Rightarrow> md5_state \<Rightarrow> md5_state" where
  "md5_step M i st =
     (case st of (a, b, c, d) \<Rightarrow>
        let f = (if i < 16 then (b AND c) OR (NOT b AND d)
                 else if i < 32 then (d AND b) OR (NOT d AND c)
                 else if i < 48 then b XOR c XOR d
                 else c XOR (b OR NOT d));
            g = (if i < 16 then i
                 else if i < 32 then (5 * i + 1) mod 16
                 else if i < 48 then (3 * i + 5) mod 16
                 else (7 * i) mod 16);
            f' = f + a + md5_K ! i + M ! g
        in (d, b + leftrotate f' (md5_s ! i), b, c))"

definition md5_compress :: "md5_state \<Rightarrow> nat list \<Rightarrow> md5_state" where
  "md5_compress st block =
     (case st of (a0, b0, c0, d0) \<Rightarrow>
        case fold (md5_step (block_words block)) [0..<64] st of
          (a, b, c, d) \<Rightarrow> (a0 + a, b0 + b, c0 + c, d0 + d))"

definition md5_blocks :: "nat list \<Rightarrow> nat list list" where
  "md5_blocks p = map (\<lambda>j. take 64 (drop (64 * j) p)) [0..<length p div 64]"

definition le_bytes :: "32 word \<Rightarrow> nat list" where
  "le_bytes w = map (\<lambda>i. unat (drop_bit (8 * i) w) mod 256) [0..<4]"

definition md5_digest :: "nat list \<Rightarrow> nat list" where
  "md5_digest m =
     (case fold (\<lambda>blk st. md5_compress st blk) (md5_blocks (md5_pad m))
             (0x67452301, 0xefcdab89, 0x98badcfe, 0x10325476) of
        (a, b, c, d) \<Rightarrow> le_bytes a @ le_bytes b @ le_bytes c @ le_bytes d)"

definition hex_digit :: "nat \<Rightarrow> char" where
  "hex_digit d = ''0123456789abcdef'' ! d"

definition hex_byte :: "nat \<Rightarrow> string" where
  "hex_byte b = [hex_digit (b div 16), hex_digit (b mod 16)]"

definition md5_hexdigest :: "string \<Rightarrow> string" where
  "md5_hexdigest s = concat (map hex_byte (md5_digest (map of_char s)))"

definition generate_safe_filename :: "string \<Rightarrow> nat \<Rightarrow> string" where
  "generate_safe_filename original_filename index =
     (let extension = lower (path_suffix original_filename);
          filename_hash = take 8 (md5_hexdigest original_filename)
      in ''audio_'' @ format_02d index @ ''_'' @ filename_hash @ extension)"

subsection \<open>The three areas\<close>

text \<open>
  The storage directory has three areas, \<open>temp\<close>, \<open>processed\<close> and \<open>failed\<close>. An area
  is the listing of a directory, in the order in which the directory is read: names
  with what they name, a directory (with its files and its modification time) or a
  plain file.
\<close>

record DirEntry =
  is_dir :: bool
  mod_time :: int
  files :: "(string \<times> bytes) list"

type_synonym area = "(string \<times> DirEntry) list"

record Storage =
  temp :: area
  processed :: area
  failed :: area

definition path_exists :: "area \<Rightarrow> string \<Rightarrow> bool" where
  "path_exists a name = (map_of a name \<noteq> None)"

definition rmtree :: "area \<Rightarrow> string \<Rightarrow> area" where
  "rmtree a name = filter (\<lambda>item. fst item \<noteq> name) a"

subsection \<open>Storing the payloads\<close>

text \<open>
  What the file system may refuse is a parameter: creating the working directory, and
  writing the file of each attachment, by index. A refused operation changes nothing.
\<close>

record StoreFaults =
  mkdir_fails :: bool
  write_fails :: "nat \<Rightarrow> bool"

text \<open>
  \<open>_store_audio_file\<close>: the path of the stored file, or \<open>None\<close> when writing or the size
  check raised. The path is given relative to the storage directory.
\<close>

definition store_audio_file ::
  "StoreFaults \<Rightarrow> int \<Rightarrow> string \<Rightarrow> DirEntry \<Rightarrow> AudioAttachment \<Rightarrow> nat
     \<Rightarrow> string option \<times> DirEntry" where
  "store_audio_file faults now cid work_dir attachment index =
     (let safe_filename = generate_safe_filename (filename attachment) index;
          file_path = ''temp/'' @ cid @ ''/'' @ safe_filename
      in if write_fails faults index then (None, work_dir)
         else (Some file_path,
               work_dir\<lparr> files := AList.update safe_filename (data attachment) (files work_dir),
                          mod_time := (if map_of (files work_dir) safe_filename = None
                                       then now else mod_time work_dir) \<rparr>))"

text \<open>
  The loop \<open>for i, attachment in enumerate(audio_attachments)\<close>: the dictionary
  \<open>stored_files\<close> is keyed by the original file name.
\<close>

fun store_loop ::
  "StoreFaults \<Rightarrow> int \<Rightarrow> string \<Rightarrow> nat \<Rightarrow> AudioAttachment list
     \<Rightarrow> (string \<times> string) list \<times> DirEntry \<Rightarrow> (string \<times> string) list \<times> DirEntry" where
  "store_loop faults now cid i [] st = st"
| "store_loop faults now cid i (attachment # rest) (stored_files, work_dir) =
     (case store_audio_file faults now cid work_dir attachment i of
        (None, work_dir') \<Rightarrow> store_loop faults now cid (i + 1) rest (stored_files, work_dir')
      | (Some file_path, work_dir') \<Rightarrow>
          store_loop faults now cid (i + 1) rest
            (AList.update (filename attachment) file_path stored_files, work_dir'))"

subsection \<open>Finalizing a correlation id\<close>

text \<open>
  The faults of one call of \<open>_cleanup_correlation_files\<close>: removing an existing target,
  moving the working directory, and removing the working directory in the fallback. A
  refused operation changes nothing.
\<close>

record FinalizeFaults =
  rmtree_target_fails :: bool
  move_fails :: bool
  rmtree_work_fails :: bool

definition target_area :: "bool \<Rightarrow> Storage \<Rightarrow> area" where
  "target_area succeeded fs = (if succeeded then processed fs else failed fs)"

definition set_target_area :: "bool \<Rightarrow> area \<Rightarrow> Storage \<Rightarrow> Storage" where
  "set_target_area succeeded a fs = (if succeeded then fs\<lparr>processed := a\<rparr> else fs\<lparr>failed := a\<rparr>)"

text \<open>The handler of the \<open>try\<close> block: delete the working directory, or report failure.\<close>

definition fallback_delete :: "FinalizeFaults \<Rightarrow> Storage \<Rightarrow> string \<Rightarrow> bool \<times> Storage" where
  "fallback_delete faults fs cid =
     (if rmtree_work_fails faults then (False, fs)
      else (True, fs\<lparr>temp := rmtree (temp fs) cid\<rparr>))"

text \<open>
  \<open>_cleanup_correlation_files\<close>. The sweep of old directories that a successful move
  schedules is a task of its own, \<open>schedule_old_file_cleanup\<close> below.
\<close>

definition cleanup_correlation_files_internal ::
  "FinalizeFaults \<Rightarrow> Storage \<Rightarrow> string \<Rightarrow> bool \<Rightarrow> bool \<times> Storage" where
  "cleanup_correlation_files_internal faults fs cid succeeded =
     (case map_of (temp fs) cid of
        None \<Rightarrow> (True, fs)
      | Some work_dir \<Rightarrow>
          if path_exists (target_area succeeded fs) cid \<and> rmtree_target_fails faults
          then fallback_delete faults fs cid
          else
            (let fs' = (if path_exists (target_area succeeded fs) cid
                        then set_target_area succeeded (rmtree (target_area succeeded fs) cid) fs
                        else fs)
             in if move_fails faults then fallback_delete faults fs' cid
                else (True,
                      set_target_area succeeded (target_area succeeded fs' @ [(cid, work_dir)])
                        (fs'\<lparr>temp := rmtree (temp fs') cid\<rparr>))))"

text \<open>The public wrapper: nothing is raised inside, so it returns the same.\<close>

definition cleanup_correlation_files ::
  "FinalizeFaults \<Rightarrow> Storage \<Rightarrow> string \<Rightarrow> bool \<Rightarrow> bool \<times> Storage" where
  "cleanup_correlation_files faults fs cid succeeded =
     cleanup_correlation_files_internal faults fs cid succeeded"

text \<open>
  \<open>store_voicemail_files\<close>. When the working directory cannot be made, the handler
  cleans up with the default \<open>success=True\<close> and returns the empty dictionary.
\<close>

definition store_voicemail_files ::
  "StoreFaults \<Rightarrow> FinalizeFaults \<Rightarrow> int \<Rightarrow> Storage \<Rightarrow> VoicemailMessage
     \<Rightarrow> (string \<times> string) list \<times> Storage" where
  "store_voicemail_files faults cleanup_faults now fs voicemail_msg =
     (let cid = correlation_id voicemail_msg in
      if mkdir_fails faults
      then ([], snd (cleanup_correlation_files_internal cleanup_faults fs cid True))
      else
        (let work_dir0 = (case map_of (temp fs) cid of
                            Some d \<Rightarrow> d
                          | None \<Rightarrow> \<lparr> is_dir = True, mod_time = now, files = [] \<rparr>);
             (stored_files, work_dir) =
               store_loop faults now cid 0 (audio_attachments voicemail_msg) ([], work_dir0)
         in (stored_files, fs\<lparr>temp := AList.update cid work_dir (temp fs)\<rparr>)))"

subsection \<open>The sweep of old directories\<close>

text \<open>
  \<open>_cleanup_old_directories\<close> reads the area once and walks the listing. The whole loop
  is inside one \<open>try\<close>: when removing a directory raises, the handler logs the error
  and the function returns, so the rest of the listing is not looked at. The result is
  the area after the sweep and whether the loop was left by an exception.
\<close>

fun cleanup_old_loop :: "int \<Rightarrow> (string \<Rightarrow> bool) \<Rightarrow> area \<Rightarrow> area \<Rightarrow> area \<times> bool" where
  "cleanup_old_loop cutoff_time rmtree_fails [] a = (a, False)"
| "cleanup_old_loop cutoff_time rmtree_fails (item # items) a =
     (if is_dir (snd item) \<and> mod_time (snd item) < cutoff_time
      then (if rmtree_fails (fst item) then (a, True)
            else cleanup_old_loop cutoff_time rmtree_fails items (rmtree a (fst item)))
      else cleanup_old_loop cutoff_time rmtree_fails items a)"

definition cleanup_old_directories :: "int \<Rightarrow> (string \<Rightarrow> bool) \<Rightarrow> area \<Rightarrow> area" where
  "cleanup_old_directories cutoff_time rmtree_fails base_dir =
     fst (cleanup_old_loop cutoff_time rmtree_fails base_dir base_dir)"

text \<open>
  \<open>_schedule_old_file_cleanup\<close>: the cutoff is the retention window before now; first
  the processed area is swept, then the failed area, each with its own faults. Times
  are in seconds.
\<close>

definition schedule_old_file_cleanup ::
  "int \<Rightarrow> int \<Rightarrow> (string \<Rightarrow> bool) \<Rightarrow> (string \<Rightarrow> bool) \<Rightarrow> Storage \<Rightarrow> Storage" where
  "schedule_old_file_cleanup now cleanup_after_hours processed_fails failed_fails fs =
     (let cutoff_time = now - cleanup_after_hours * 3600
      in fs\<lparr> processed := cleanup_old_directories cutoff_time processed_fails (processed fs),
              failed := cleanup_old_directories cutoff_time failed_fails (failed fs) \<rparr>)"

section \<open>Pipeline (app/tasks/email_tasks.py)\<close>

text \<open>Everything outside the repository that one run of the pipeline meets.\<close>

record Environment =
  google_config :: GoogleConfig
  recognize_call :: speech_client
  send_email :: smtp_send
  store_faults :: StoreFaults
  store_cleanup_faults :: FinalizeFaults
  finalize_faults :: FinalizeFaults
  clock :: int

definition count_successful :: "TranscriptionResult option list \<Rightarrow> nat" where
  "count_successful rs = length (filter (\<lambda>r. r \<noteq> None) rs)"

text \<open>The \<open>except\<close> branch of \<open>_process_voicemail_async\<close>.\<close>

definition failure_result ::
  "Environment \<Rightarrow> Storage \<Rightarrow> string \<Rightarrow> TranscriptionResult option list \<Rightarrow> string \<Rightarrow> bool
     \<Rightarrow> ProcessingResult \<times> Storage" where
  "failure_result env fs cid rs e was_forwarded =
     (case cleanup_correlation_files (finalize_faults env) fs cid False of
        (cleaned, fs') \<Rightarrow>
          (\<lparr> result_correlation_id = cid,
             success = False,
             transcriptions_count = count_successful rs,
             error_message = Some e,
             processing_time_ms = 0,
             forwarded = was_forwarded,
             files_cleaned = cleaned \<rparr>, fs'))"

text \<open>
  The steps of \<open>_process_voicemail_async\<close>. Step 1 stores the audio files when there
  are any; step 2 transcribes them and records the successful results in the message;
  step 3 enhances and forwards.
\<close>

definition store_step ::
  "Environment \<Rightarrow> Storage \<Rightarrow> VoicemailMessage \<Rightarrow> (string \<times> string) list \<times> Storage" where
  "store_step env fs voicemail_msg =
     (if has_audio_attachments voicemail_msg
      then store_voicemail_files (store_faults env) (store_cleanup_faults env)
             (clock env) fs voicemail_msg
      else ([], fs))"

definition transcribe_step ::
  "Environment \<Rightarrow> VoicemailMessage \<Rightarrow> TranscriptionResult option list" where
  "transcribe_step env voicemail_msg =
     (if has_audio_attachments voicemail_msg
      then transcribe_multiple (google_config env) (recognize_call env)
             (audio_attachments voicemail_msg)
      else [])"

definition forward_step :: "Environment \<Rightarrow> VoicemailMessage \<Rightarrow> bool" where
  "forward_step env voicemail_msg =
     (let rs = transcribe_step env voicemail_msg;
          msg' = (if has_audio_attachments voicemail_msg
                  then voicemail_msg\<lparr>msg_transcription_results := successful rs\<rparr>
                  else voicemail_msg)
      in enhance_and_forward (send_email env) msg' rs)"

text \<open>
  \<open>_process_voicemail_async\<close>: a \<open>ValueError\<close> raised after a step goes to the
  \<open>except\<close> branch with its message; step 4 finalizes with \<open>success=True\<close>.
\<close>

definition process_voicemail_async ::
  "Environment \<Rightarrow> Storage \<Rightarrow> VoicemailMessage \<Rightarrow> ProcessingResult \<times> Storage" where
  "process_voicemail_async env fs voicemail_msg =
     (let cid = correlation_id voicemail_msg;
          stored_files = fst (store_step env fs voicemail_msg);
          fs1 = snd (store_step env fs voicemail_msg)
      in if has_audio_attachments voicemail_msg \<and> stored_files = []
         then failure_result env fs1 cid [] ''Failed to store audio files for processing'' False
         else
           (let rs = transcribe_step env voicemail_msg;
                was_forwarded = forward_step env voicemail_msg
            in if \<not> was_forwarded
               then failure_result env fs1 cid rs ''Failed to forward enhanced email'' was_forwarded
               else
                 (case cleanup_correlation_files (finalize_faults env) fs1 cid True of
                    (cleaned, fs2) \<Rightarrow>
                      (\<lparr> result_correlation_id = cid,
                         success = True,
                         transcriptions_count = count_successful rs,
                         error_message = None,
                         processing_time_ms = 0,
                         forwarded = was_forwarded,
                         files_cleaned = cleaned \<rparr>, fs2))))"

section \<open>Example inputs\<close>

definition example_wav :: AudioAttachment where
  "example_wav =
     \<lparr> filename = ''voicemail_test.wav'', content_type = ''audio/wav'', size_bytes = 4,
       data = ''RIFF'' \<rparr>"


definition example_result :: TranscriptionResult where
  "example_result =
     \<lparr> transcript = ''call me back'', confidence = 95 / 100, language_code = ''en-US'',
       alternatives = [] \<rparr>"


definition example_msg :: VoicemailMessage where
  "example_msg =
     \<lparr> correlation_id = ''req_1'', message_id = ''<test123@company.com>'',
       sender = ''avaya@company.com'', recipients = [''user@company.com''],
       subject = ''Voicemail from John Doe'',
       body_text = Some ''You have a new voicemail message.'', body_html = None,
       headers = [], audio_attachments = [example_wav], other_attachments = [],
       msg_transcription_results = [] \<rparr>"

text \<open>The example message as it arrives again after it was enhanced once.\<close>

definition example_retry_msg :: VoicemailMessage where
  "example_retry_msg = example_msg\<lparr>subject := ''[Transcribed] Voicemail from John Doe''\<rparr>"

definition example_no_audio_msg :: VoicemailMessage where
  "example_no_audio_msg =
     \<lparr> correlation_id = ''req_2'', message_id = ''<test456@company.com>'',
       sender = ''avaya@company.com'', recipients = [''user@company.com''],
       subject = ''Hello'', body_text = Some ''hi'', body_html = None,
       headers = [], audio_attachments = [], other_attachments = [],
       msg_transcription_results = [] \<rparr>"

definition no_finalize_faults :: FinalizeFaults where
  "no_finalize_faults =
     \<lparr> rmtree_target_fails = False, move_fails = False, rmtree_work_fails = False \<rparr>"

definition all_finalize_faults :: FinalizeFaults where
  "all_finalize_faults =
     \<lparr> rmtree_target_fails = True, move_fails = True, rmtree_work_fails = True \<rparr>"

definition example_dir :: DirEntry where
  "example_dir = \<lparr> is_dir = True, mod_time = 1000, files = [(''audio_00_817b7c65.wav'', ''RIFF'')] \<rparr>"

definition example_old_dir :: DirEntry where
  "example_old_dir = \<lparr> is_dir = True, mod_time = 10, files = [] \<rparr>"

definition empty_storage :: Storage where
  "empty_storage = \<lparr> temp = [], processed = [], failed = [] \<rparr>"

section \<open>Properties of the fan-out\<close>





section \<open>Properties of the enhancer\<close>

subsection \<open>Strings\<close>

lemma startswith_iff: "startswith s p \<longleftrightarrow> (\<exists>b. s = p @ b)"
  unfolding startswith_def by (metis append_eq_conv_conj append_take_drop_id)

lemma str_contains_iff: "str_contains p s \<longleftrightarrow> (\<exists>a b. s = a @ p @ b)"
proof (induction s)
  case Nil
  show ?case by auto
next
  case (Cons c cs)
  show ?case
  proof
    assume "str_contains p (c # cs)"
    then consider "startswith (c # cs) p" | "str_contains p cs" by auto
    then show "\<exists>a b. c # cs = a @ p @ b"
    proof cases
      case 1
      then obtain b where "c # cs = p @ b" by (auto simp: startswith_iff)
      then have "c # cs = [] @ p @ b" by simp
      then show ?thesis by blast
    next
      case 2
      then obtain a b where "cs = a @ p @ b" using Cons.IH by blast
      then have "c # cs = (c # a) @ p @ b" by simp
      then show ?thesis by blast
    qed
  next
    assume "\<exists>a b. c # cs = a @ p @ b"
    then obtain a b where ab: "c # cs = a @ p @ b" by blast
    show "str_contains p (c # cs)"
    proof (cases a)
      case Nil
      with ab have "startswith (c # cs) p" by (auto simp: startswith_iff)
      then show ?thesis by simp
    next
      case (Cons x a')
      with ab have "cs = a' @ p @ b" by simp
      then have "str_contains p cs" using Cons.IH by blast
      then show ?thesis by simp
    qed
  qed
qed

lemma str_containsI: "s = a @ p @ b \<Longrightarrow> str_contains p s"
  by (auto simp: str_contains_iff)

lemma join_line: "l \<in> set ls \<Longrightarrow> \<exists>a b. join sep ls = a @ l @ b"
proof (induction sep ls rule: join.induct)
  case (1 sep)
  then show ?case by simp
next
  case (2 sep l')
  then have "join sep [l'] = [] @ l @ []" by simp
  then show ?case by blast
next
  case (3 sep l0 l1 ls)
  show ?case
  proof (cases "l = l0")
    case True
    then have "join sep (l0 # l1 # ls) = [] @ l @ (sep @ join sep (l1 # ls))" by simp
    then show ?thesis by blast
  next
    case False
    with 3 obtain a b where "join sep (l1 # ls) = a @ l @ b" by auto
    then have "join sep (l0 # l1 # ls) = (l0 @ sep @ a) @ l @ b" by simp
    then show ?thesis by blast
  qed
qed

lemma join_contains:
  assumes "l \<in> set ls" and "str_contains p l"
  shows "str_contains p (join sep ls)"
proof -
  obtain a b where j: "join sep ls = a @ l @ b" using join_line [OF assms(1)] by blast
  obtain c d where l: "l = c @ p @ d" using assms(2) by (auto simp: str_contains_iff)
  have "join sep ls = (a @ c) @ p @ (d @ b)" by (simp add: j l)
  then show ?thesis by (rule str_containsI)
qed

lemma transcript_line_in_result_lines:
  "(''Transcript: '' @ transcript r) \<in> set (result_lines several i r)"
  by (simp add: result_lines_def)

lemma confidence_line_in_result_lines:
  "(''Confidence: '' @ format_percent (confidence r)) \<in> set (result_lines several i r)"
  by (simp add: result_lines_def)

lemma result_lines_in_transcription_lines:
  "r \<in> set rs \<Longrightarrow> set (result_lines several (i + (length (takeWhile (\<lambda>x. x \<noteq> r) rs))) r)
      \<subseteq> set (transcription_lines several i rs)"
proof (induction rs arbitrary: i)
  case Nil
  then show ?case by simp
next
  case (Cons x rs)
  show ?case
  proof (cases "x = r")
    case True
    then show ?thesis by auto
  next
    case False
    with Cons.prems have "r \<in> set rs" by simp
    from Cons.IH [OF this, of "i + 1"] False show ?thesis by auto
  qed
qed

lemma transcript_line_in_transcription_lines:
  assumes "r \<in> set rs"
  shows "(''Transcript: '' @ transcript r) \<in> set (transcription_lines several i rs)"
  using result_lines_in_transcription_lines [OF assms] transcript_line_in_result_lines by blast

lemma confidence_line_in_transcription_lines:
  assumes "r \<in> set rs"
  shows "(''Confidence: '' @ format_percent (confidence r)) \<in> set (transcription_lines several i rs)"
  using result_lines_in_transcription_lines [OF assms] confidence_line_in_result_lines by blast

lemma transcript_in_body:
  assumes "r \<in> set (successful rs)"
  shows "str_contains (transcript r) (create_plain_text_body m rs)"
proof -
  have ne: "successful rs \<noteq> []" using assms by auto
  have "(''Transcript: '' @ transcript r) \<in> set (body_lines m rs)"
    using transcript_line_in_transcription_lines [OF assms] ne
    by (simp add: body_lines_def Let_def)
  moreover have "str_contains (transcript r) (''Transcript: '' @ transcript r)"
    by (rule str_containsI [of _ "''Transcript: ''" _ "[]"]) simp
  ultimately show ?thesis
    unfolding create_plain_text_body_def by (rule join_contains)
qed

lemma confidence_in_body:
  assumes "r \<in> set (successful rs)"
  shows "str_contains (''Confidence: '' @ format_percent (confidence r)) (create_plain_text_body m rs)"
proof -
  have ne: "successful rs \<noteq> []" using assms by auto
  have "(''Confidence: '' @ format_percent (confidence r)) \<in> set (body_lines m rs)"
    using confidence_line_in_transcription_lines [OF assms] ne
    by (simp add: body_lines_def Let_def)
  moreover have "str_contains (''Confidence: '' @ format_percent (confidence r))
                   (''Confidence: '' @ format_percent (confidence r))"
    by (rule str_containsI [of _ "[]" _ "[]"]) simp
  ultimately show ?thesis
    unfolding create_plain_text_body_def by (rule join_contains)
qed




subsection \<open>Evaluation on concrete inputs\<close>

lemmas enhancer_eval =
  create_plain_text_body_def body_lines_def successful_def has_audio_attachments_def
  result_lines_def format_percent_def round_half_even_def str_nat.simps digit_char_def
  startswith_def enhance_subject_def

subsection \<open>Subject and body\<close>



text \<open>
  C8, as stated, fails. The confidence 0.95 is printed with two decimals, \<open>95.00%\<close>, and
  the body of the example contains no \<open>95%\<close>; and a subject that already starts with
  the marker is left as it is, not prefixed again.
\<close>

theorem scenario_b_counterexample:
  "enhance_subject (subject example_retry_msg) [Some example_result]
     \<noteq> ''[Transcribed] '' @ subject example_retry_msg
   \<and> \<not> str_contains ''95%'' (create_plain_text_body example_retry_msg [Some example_result])"
  by (simp add: enhancer_eval example_retry_msg_def example_msg_def example_result_def
      example_wav_def)

text \<open>
  C8, amended. For every message and a single outcome that is a success with transcript
  \<open>call me back\<close> and confidence 0.95, the enhanced subject is \<open>[Transcribed] \<close>
  followed by the original subject, unless the original subject already starts with
  \<open>[Transcribed]\<close>, when it is unchanged; the plain-text body contains \<open>call me back\<close>
  and \<open>95.00%\<close>.
\<close>

theorem scenario_b_enhanced:
  "transcript r = ''call me back'' \<Longrightarrow> confidence r = 95 / 100 \<Longrightarrow>
     enhance_subject (subject m) [Some r]
       = (if startswith (subject m) ''[Transcribed]'' then subject m
          else ''[Transcribed] '' @ subject m)
     \<and> str_contains ''call me back'' (create_plain_text_body m [Some r])
     \<and> str_contains ''95.00%'' (create_plain_text_body m [Some r])"
proof -
  assume t: "transcript r = ''call me back''" and c: "confidence r = 95 / 100"
  have mem: "r \<in> set (successful [Some r])"
    by (simp add: successful_def)
  have subj: "enhance_subject (subject m) [Some r]
       = (if startswith (subject m) ''[Transcribed]'' then subject m
          else ''[Transcribed] '' @ subject m)"
    by (simp add: enhance_subject_def successful_def)
  have tr: "str_contains ''call me back'' (create_plain_text_body m [Some r])"
    using transcript_in_body [OF mem, of m] t by simp
  have fp: "format_percent (95 / 100) = ''95.00%''"
    by (simp add: format_percent_def round_half_even_def str_nat.simps digit_char_def)
  have "str_contains (''Confidence: '' @ ''95.00%'') (create_plain_text_body m [Some r])"
    using confidence_in_body [OF mem, of m] c fp by simp
  then obtain a b where "create_plain_text_body m [Some r] = a @ (''Confidence: '' @ ''95.00%'') @ b"
    unfolding str_contains_iff by blast
  then have "create_plain_text_body m [Some r] = (a @ ''Confidence: '') @ ''95.00%'' @ b"
    by simp
  then have pc: "str_contains ''95.00%'' (create_plain_text_body m [Some r])"
    by (rule str_containsI)
  show ?thesis using subj tr pc by simp
qed

text \<open>The statement at the example message, whose payload is one WAV file.\<close>

theorem scenario_b_enhanced_witness:
  "transcript example_result = ''call me back'' \<and> confidence example_result = 95 / 100
   \<and> enhance_subject (subject example_msg) [Some example_result]
       = ''[Transcribed] Voicemail from John Doe''
   \<and> str_contains ''call me back'' (create_plain_text_body example_msg [Some example_result])
   \<and> str_contains ''95.00%'' (create_plain_text_body example_msg [Some example_result])"
proof -
  have t: "transcript example_result = ''call me back''"
    and c: "confidence example_result = 95 / 100"
    by (simp_all add: example_result_def)
  have s: "\<not> startswith (subject example_msg) ''[Transcribed]''"
    by (simp add: example_msg_def startswith_def)
  have sv: "subject example_msg = ''Voicemail from John Doe''"
    by (simp add: example_msg_def)
  show ?thesis
    using scenario_b_enhanced [OF t c, of example_msg] t c s sv by simp
qed

text \<open>
  C2. The claim asks that a message without audio payloads keeps its subject. The code
  does not: with no audio payloads the outcome list is empty, \<open>enhance_subject\<close> finds
  no success and puts \<open>[Audio] \<close> in front of the subject, without asking whether
  the message has audio attachments, as the body builder does before it adds its notice.
  The enhanced message of the example, in any environment: the subject \<open>Hello\<close> has
  become \<open>[Audio] Hello\<close>, while the body has no transcription and no audio notice.
\<close>

theorem no_audio_subject_marked:
  "create_enhanced_email example_no_audio_msg (transcribe_step env example_no_audio_msg)
     = Some \<lparr> e_from = ''avaya@company.com'', e_to = ''user@company.com'',
              e_subject = ''[Audio] Hello'',
              e_plain_text = ''=== ORIGINAL MESSAGE ===\<newline>\<newline>hi'',
              e_audio = [], e_other = [] \<rparr>"
  by (simp add: create_enhanced_email_def transcribe_step_def enhancer_eval
      example_no_audio_msg_def)

section \<open>Properties of finalizing\<close>

text \<open>
  C10. When the working directory of a correlation id does not exist, finalizing returns
  \<open>True\<close> and leaves the three areas as they are, for either value of the success flag
  and whatever the file system would refuse.
\<close>

theorem cleanup_without_work_dir:
  "map_of (temp fs) cid = None \<Longrightarrow>
     cleanup_correlation_files faults fs cid succeeded = (True, fs)"
  by (simp add: cleanup_correlation_files_def cleanup_correlation_files_internal_def)

theorem cleanup_without_work_dir_witness:
  "map_of (temp \<lparr> temp = [], processed = [(''req_1'', example_dir)], failed = [] \<rparr>) ''req_1'' = None
   \<and> cleanup_correlation_files all_finalize_faults
         \<lparr> temp = [], processed = [(''req_1'', example_dir)], failed = [] \<rparr> ''req_1'' False
       = (True, \<lparr> temp = [], processed = [(''req_1'', example_dir)], failed = [] \<rparr>)"
  using cleanup_without_work_dir
    [of "\<lparr> temp = [], processed = [(''req_1'', example_dir)], failed = [] \<rparr>" "''req_1''"
        all_finalize_faults False]
  by simp

end
